theory Spec2Isabelle
  imports Main "HOL-Library.Word" "HOL-Library.Product_Lexorder"
begin

section \<open>Enumerations of the model\<close>

text \<open>
  \<^verbatim>\<open>model::FunctionEdgeType::Values\<close>, \<^verbatim>\<open>model::FunctionType::Values\<close> and
  \<^verbatim>\<open>model::RegisterState::Values\<close>, in declaration order. Each C++ enum lives in a
  namespace of its own and each has an enumerator \<^verbatim>\<open>Invalid\<close>; here the three are
  told apart by their qualified names, as in \<open>RegisterState.Invalid\<close>.
\<close>

datatype FunctionEdgeType =
    Invalid | DirectBranch | FakeFunctionCall | FakeFunctionReturn | FunctionCall
  | IndirectCall | Return | BrokenReturn | IndirectTailCall | LongJmp | Killer | Unreachable

datatype FunctionType = Invalid | Regular | NoReturn | Fake

datatype RegisterState = Invalid | No | NoOrDead | Dead | Yes | YesOrDead | Maybe | Contradiction

text \<open>
  The ways a call can fail to return a value: \<^verbatim>\<open>revng_abort()\<close>, and the dereference
  of a null pointer.
\<close>

datatype error = revng_abort | null_dereference

section \<open>The register-state lattice\<close>

text \<open>
  \<^verbatim>\<open>ABIAnalyses::combine\<close>: an outer switch on \<open>LH\<close>, and for the rows \<^verbatim>\<open>Yes\<close>,
  \<^verbatim>\<open>YesOrDead\<close>, \<^verbatim>\<open>No\<close>, \<^verbatim>\<open>NoOrDead\<close> and \<^verbatim>\<open>Dead\<close> an inner switch on \<open>RH\<close>.
  The rows \<^verbatim>\<open>Maybe\<close> and \<^verbatim>\<open>Contradiction\<close> return without looking at \<open>RH\<close>.
\<close>

fun combine :: "RegisterState \<Rightarrow> RegisterState \<Rightarrow> error + RegisterState" where
  "combine Yes RH =
     (case RH of
        Yes \<Rightarrow> Inr Yes
      | YesOrDead \<Rightarrow> Inr Yes
      | Maybe \<Rightarrow> Inr Yes
      | No \<Rightarrow> Inr Contradiction
      | NoOrDead \<Rightarrow> Inr Contradiction
      | Dead \<Rightarrow> Inr Contradiction
      | Contradiction \<Rightarrow> Inr Contradiction
      | RegisterState.Invalid \<Rightarrow> Inl revng_abort)"
| "combine YesOrDead RH =
     (case RH of
        Yes \<Rightarrow> Inr Yes
      | Maybe \<Rightarrow> Inr YesOrDead
      | YesOrDead \<Rightarrow> Inr YesOrDead
      | Dead \<Rightarrow> Inr Dead
      | NoOrDead \<Rightarrow> Inr Dead
      | No \<Rightarrow> Inr Contradiction
      | Contradiction \<Rightarrow> Inr Contradiction
      | RegisterState.Invalid \<Rightarrow> Inl revng_abort)"
| "combine No RH =
     (case RH of
        No \<Rightarrow> Inr No
      | NoOrDead \<Rightarrow> Inr No
      | Maybe \<Rightarrow> Inr No
      | Yes \<Rightarrow> Inr Contradiction
      | YesOrDead \<Rightarrow> Inr Contradiction
      | Dead \<Rightarrow> Inr Contradiction
      | Contradiction \<Rightarrow> Inr Contradiction
      | RegisterState.Invalid \<Rightarrow> Inl revng_abort)"
| "combine NoOrDead RH =
     (case RH of
        No \<Rightarrow> Inr No
      | Maybe \<Rightarrow> Inr NoOrDead
      | NoOrDead \<Rightarrow> Inr NoOrDead
      | Dead \<Rightarrow> Inr Dead
      | YesOrDead \<Rightarrow> Inr Dead
      | Yes \<Rightarrow> Inr Contradiction
      | Contradiction \<Rightarrow> Inr Contradiction
      | RegisterState.Invalid \<Rightarrow> Inl revng_abort)"
| "combine Dead RH =
     (case RH of
        Dead \<Rightarrow> Inr Dead
      | Maybe \<Rightarrow> Inr Dead
      | NoOrDead \<Rightarrow> Inr Dead
      | YesOrDead \<Rightarrow> Inr Dead
      | No \<Rightarrow> Inr Contradiction
      | Yes \<Rightarrow> Inr Contradiction
      | Contradiction \<Rightarrow> Inr Contradiction
      | RegisterState.Invalid \<Rightarrow> Inl revng_abort)"
| "combine Maybe RH = Inr RH"
| "combine Contradiction RH = Inr Contradiction"
| "combine RegisterState.Invalid RH = Inl revng_abort"

section \<open>Function summaries and the table of results\<close>

text \<open>
  Pointers (\<^verbatim>\<open>llvm::BasicBlock *\<close>, \<^verbatim>\<open>llvm::GlobalVariable *\<close>, \<^verbatim>\<open>llvm::CallInst *\<close>,
  \<^verbatim>\<open>llvm::Function *\<close>) are addresses; they are only compared and used as keys.
\<close>

type_synonym BasicBlock = nat
type_synonym GlobalVariable = nat
type_synonym CallInst_ptr = nat
type_synonym Function_ptr = nat

text \<open>\<^verbatim>\<open>struct FunctionSummary\<close>, field by field.\<close>

record FunctionSummary =
  Type :: FunctionType
  ClobberedRegisters :: "GlobalVariable set"
  Result :: "(CallInst_ptr \<times> FunctionEdgeType) set"
  ElectedFSO :: "64 word option"
  FakeFunction :: Function_ptr

text \<open>
  The integer value of an enumerator of \<^verbatim>\<open>model::FunctionType::Values\<close>, which is
  what \<^verbatim>\<open>New.Type <= Old.Type\<close> compares.
\<close>

fun FunctionType_value :: "FunctionType \<Rightarrow> nat" where
  "FunctionType_value FunctionType.Invalid = 0"
| "FunctionType_value Regular = 1"
| "FunctionType_value NoReturn = 2"
| "FunctionType_value Fake = 3"

text \<open>
  \<^verbatim>\<open>FunctionSummary::compare\<close>. \<^verbatim>\<open>std::includes(Old.begin, Old.end, New.begin, New.end)\<close>
  on two \<^verbatim>\<open>std::set\<close>s holds when every element of \<open>New\<close> is an element of \<open>Old\<close>.
\<close>

definition compare :: "FunctionSummary \<Rightarrow> FunctionSummary \<Rightarrow> bool" where
  "compare Old New =
     (if Type New = Type Old
      then ClobberedRegisters New \<subseteq> ClobberedRegisters Old
      else FunctionType_value (Type New) \<le> FunctionType_value (Type Old))"

text \<open>\<^verbatim>\<open>class FunctionAnalysisResults\<close>: the bucket and the default summary.\<close>

record FunctionAnalysisResults =
  FunctionsBucket :: "BasicBlock \<rightharpoonup> FunctionSummary"
  DefaultSummary :: FunctionSummary

text \<open>The constructor: an empty bucket and the default summary it is given.\<close>

definition new_FunctionAnalysisResults :: "FunctionSummary \<Rightarrow> FunctionAnalysisResults" where
  "new_FunctionAnalysisResults D = \<lparr>FunctionsBucket = Map.empty, DefaultSummary = D\<rparr>"

definition get :: "FunctionAnalysisResults \<Rightarrow> BasicBlock \<Rightarrow> FunctionSummary" where
  "get S BB = (case FunctionsBucket S BB of Some It \<Rightarrow> It | None \<Rightarrow> DefaultSummary S)"

definition getFunctionType :: "FunctionAnalysisResults \<Rightarrow> BasicBlock \<Rightarrow> FunctionType" where
  "getFunctionType S BB = Type (get S BB)"

definition isFakeFunction :: "FunctionAnalysisResults \<Rightarrow> BasicBlock \<Rightarrow> bool" where
  "isFakeFunction S BB = (getFunctionType S BB = Fake)"

definition getFakeFunction :: "FunctionAnalysisResults \<Rightarrow> BasicBlock \<Rightarrow> Function_ptr" where
  "getFakeFunction S BB = FakeFunction (get S BB)"

definition getRegistersClobbered ::
  "FunctionAnalysisResults \<Rightarrow> BasicBlock \<Rightarrow> GlobalVariable set" where
  "getRegistersClobbered S BB = ClobberedRegisters (get S BB)"

definition getElectedFSO :: "FunctionAnalysisResults \<Rightarrow> BasicBlock \<Rightarrow> 64 word option" where
  "getElectedFSO S BB = ElectedFSO (get S BB)"

text \<open>
  \<^verbatim>\<open>registerFunction\<close> returns its boolean together with the updated table. When the
  entry exists, \<^verbatim>\<open>It->second = std::move(F)\<close> is executed whatever \<open>compare\<close> said.
\<close>

definition registerFunction ::
  "FunctionAnalysisResults \<Rightarrow> BasicBlock \<Rightarrow> FunctionSummary \<Rightarrow> bool \<times> FunctionAnalysisResults" where
  "registerFunction S BB F =
     (case FunctionsBucket S BB of
        Some Old \<Rightarrow>
          (let Changed = compare Old F
           in (\<not> Changed, S\<lparr>FunctionsBucket := (FunctionsBucket S)(BB \<mapsto> F)\<rparr>))
      | None \<Rightarrow> (True, S\<lparr>FunctionsBucket := (FunctionsBucket S)(BB \<mapsto> F)\<rparr>))"

text \<open>
  A caller that registers one summary after the other; the booleans are collected in
  call order. This is the use the fixpoint driver makes of \<open>registerFunction\<close>, and
  it is what a statement about successive summaries ranges over.
\<close>

fun registerFunctions ::
  "FunctionAnalysisResults \<Rightarrow> (BasicBlock \<times> FunctionSummary) list
     \<Rightarrow> bool list \<times> FunctionAnalysisResults" where
  "registerFunctions S [] = ([], S)"
| "registerFunctions S ((BB, F) # rest) =
     (case registerFunction S BB F of
        (r, S') \<Rightarrow> (case registerFunctions S' rest of (rs, S'') \<Rightarrow> (r # rs, S'')))"

section \<open>The ABI analyses of an outlined function\<close>

text \<open>
  A container with unique keys is the list of its entries in the order in which it is
  walked. For a \<^verbatim>\<open>std::map\<close> that is the order of increasing key. For the
  \<^verbatim>\<open>llvm::DenseMap\<close> behind \<^verbatim>\<open>RegisterStateMap\<close> it is the order of the buckets, which
  the container does not promise to be any particular one: a \<open>RegisterStateMap\<close> that
  an analysis hands over may list its keys in any order. \<open>assign k v m\<close> is
  \<^verbatim>\<open>m[k] = v\<close>; on a list in key order it gives a list in key order. \<open>at d m k\<close> reads
  \<^verbatim>\<open>m[k]\<close>, with \<open>d\<close> the value-initialised entry that \<^verbatim>\<open>operator[]\<close> would create for
  a key that is not there.
\<close>

fun assign :: "'k::linorder \<Rightarrow> 'v \<Rightarrow> ('k \<times> 'v) list \<Rightarrow> ('k \<times> 'v) list" where
  "assign k v [] = [(k, v)]"
| "assign k v ((k', v') # m) =
     (if k = k' then (k, v) # m
      else if k < k' then (k, v) # (k', v') # m
      else (k', v') # assign k v m)"

definition at :: "'v \<Rightarrow> ('k \<times> 'v) list \<Rightarrow> 'k \<Rightarrow> 'v" where
  "at d m k = (case map_of m k of Some v \<Rightarrow> v | None \<Rightarrow> d)"

type_synonym MetaAddress = nat
type_synonym RegisterStateMap = "(GlobalVariable \<times> RegisterState) list"

text \<open>\<^verbatim>\<open>struct ABIAnalysesResults\<close> and its nested \<^verbatim>\<open>struct CallSiteResults\<close>.\<close>

record CallSiteResults =
  Arguments :: RegisterStateMap
  ReturnValues :: RegisterStateMap

record ABIAnalysesResults =
  Arguments :: RegisterStateMap
  CallSites :: "(MetaAddress \<times> CallSiteResults) list"
  ReturnValues :: RegisterStateMap

text \<open>\<^verbatim>\<open>struct PartialAnalysisResults\<close>.\<close>

record PartialAnalysisResults =
  UAOF :: RegisterStateMap
  DRAOF :: RegisterStateMap
  URVOFC :: "((MetaAddress \<times> BasicBlock) \<times> RegisterStateMap) list"
  RAOFC :: "((MetaAddress \<times> BasicBlock) \<times> RegisterStateMap) list"
  DRVOFC :: "((MetaAddress \<times> BasicBlock) \<times> RegisterStateMap) list"
  URVOF :: RegisterStateMap

text \<open>
  What \<open>analyzeOutlinedFunction\<close> looks at in an instruction: whether it is a call,
  and then the called function and the first operand (read as a \<^verbatim>\<open>MetaAddress\<close>),
  or a return, or anything else. A function is the list of its basic blocks, each with
  its instructions; the entry block is the first one, and \<^verbatim>\<open>instructions(F)\<close> visits
  the blocks in order.
\<close>

datatype Instruction = CallInst Function_ptr MetaAddress | ReturnInst | OtherInst

type_synonym LLVMFunction = "(BasicBlock \<times> Instruction list) list"

definition instructions :: "LLVMFunction \<Rightarrow> (BasicBlock \<times> Instruction) list" where
  "instructions F = concat (map (\<lambda>(BB, Is). map (Pair BB) Is) F)"

text \<open>
  The six analyses of \<^verbatim>\<open>Analyses.h\<close> are not part of the sources at hand. They are
  parameters here: each maps a basic block to a \<open>RegisterStateMap\<close> (the
  \<^verbatim>\<open>GeneratedCodeBasicInfo\<close> argument is fixed throughout one call).
\<close>

record Analyses =
  UsedArgumentsOfFunction :: "BasicBlock \<Rightarrow> RegisterStateMap"
  DeadRegisterArgumentsOfFunction :: "BasicBlock \<Rightarrow> RegisterStateMap"
  UsedReturnValuesOfFunctionCall :: "BasicBlock \<Rightarrow> RegisterStateMap"
  RegisterArgumentsOfFunctionCall :: "BasicBlock \<Rightarrow> RegisterStateMap"
  DeadReturnValuesOfFunctionCall :: "BasicBlock \<Rightarrow> RegisterStateMap"
  UsedReturnValuesOfFunction :: "BasicBlock \<Rightarrow> RegisterStateMap"

text \<open>The body of the loop over \<^verbatim>\<open>instructions(F)\<close>, for one instruction \<open>I\<close> of block \<open>BB\<close>.\<close>

fun visitInstruction ::
  "Analyses \<Rightarrow> Function_ptr \<Rightarrow> BasicBlock \<times> Instruction
     \<Rightarrow> PartialAnalysisResults \<Rightarrow> PartialAnalysisResults" where
  "visitInstruction A CallSiteHook (BB, CallInst CalledFunction PC) Results =
     (if CalledFunction = CallSiteHook
      then Results\<lparr>URVOFC := assign (PC, BB) (UsedReturnValuesOfFunctionCall A BB) (URVOFC Results),
                   RAOFC := assign (PC, BB) (RegisterArgumentsOfFunctionCall A BB) (RAOFC Results),
                   DRVOFC := assign (PC, BB) (DeadReturnValuesOfFunctionCall A BB) (DRVOFC Results)\<rparr>
      else Results)"
| "visitInstruction A CallSiteHook (BB, ReturnInst) Results =
     Results\<lparr>URVOF := UsedReturnValuesOfFunction A BB\<rparr>"
| "visitInstruction A CallSiteHook (BB, OtherInst) Results = Results"

text \<open>
  Modelled from the spec: \<^verbatim>\<open>zipmap_range\<close> of \<^verbatim>\<open>revng/ADT/ZipMapIterator.h\<close>, which is
  not part of the sources at hand. The specification combines two maps "pointwise per
  register (missing entries default to Maybe before combining)", and the caller tests
  each side of a pair against \<^verbatim>\<open>nullptr\<close>: the range steps through both containers in
  key order and yields, for every key of either, the pair of pointers to the left and
  the right entry, a null pointer (\<open>None\<close>) standing for an entry that is missing.
\<close>

fun zipmap_range ::
  "('k::linorder \<times> 'a) list \<Rightarrow> ('k \<times> 'b) list \<Rightarrow> (('k \<times> 'a) option \<times> ('k \<times> 'b) option) list" where
  "zipmap_range [] [] = []"
| "zipmap_range (l # ls) [] = (Some l, None) # zipmap_range ls []"
| "zipmap_range [] (r # rs) = (None, Some r) # zipmap_range [] rs"
| "zipmap_range (l # ls) (r # rs) =
     (if fst l = fst r then (Some l, Some r) # zipmap_range ls rs
      else if fst l < fst r then (Some l, None) # zipmap_range ls (r # rs)
      else (None, Some r) # zipmap_range (l # ls) rs)"

text \<open>
  The body shared by both iterations over a \<open>zipmap_range\<close>: the key comes from the
  side that is there, a missing side counts as \<open>Maybe\<close>, and the two values are
  combined. The result is the key with the value to store under it. Both sides missing
  would be a read through a null pointer.
\<close>

definition combineEntry ::
  "(GlobalVariable \<times> RegisterState) option \<times> (GlobalVariable \<times> RegisterState) option
     \<Rightarrow> error + (GlobalVariable \<times> RegisterState)" where
  "combineEntry Z =
     (case Z of (Left', Right') \<Rightarrow>
        (case (case Left' of None \<Rightarrow> map_option fst Right' | Some L \<Rightarrow> Some (fst L)) of
           None \<Rightarrow> Inl null_dereference
         | Some CSV \<Rightarrow>
             (let LV = (case Left' of None \<Rightarrow> Maybe | Some L \<Rightarrow> snd L);
                  RV = (case Right' of None \<Rightarrow> Maybe | Some R \<Rightarrow> snd R)
              in case combine LV RV of Inl e \<Rightarrow> Inl e | Inr v \<Rightarrow> Inr (CSV, v))))"

text \<open>
  "Combine UAOF and DRAOF": \<^verbatim>\<open>FinalResults.Arguments[CSV] = combine(LV, RV)\<close> for every
  pair of the range. An abort of \<open>combine\<close> ends the whole call.
\<close>

fun combineArguments ::
  "((GlobalVariable \<times> RegisterState) option \<times> (GlobalVariable \<times> RegisterState) option) list
     \<Rightarrow> RegisterStateMap \<Rightarrow> error + RegisterStateMap" where
  "combineArguments [] Args = Inr Args"
| "combineArguments (Z # rest) Args =
     (case combineEntry Z of
        Inl e \<Rightarrow> Inl e
      | Inr (CSV, v) \<Rightarrow> combineArguments rest (assign CSV v Args))"

text \<open>The value-initialised \<^verbatim>\<open>CallSiteResults\<close> that \<^verbatim>\<open>CallSites[PC]\<close> creates.\<close>

definition emptyCallSiteResults :: CallSiteResults where
  "emptyCallSiteResults = \<lparr>CallSiteResults.Arguments = [], CallSiteResults.ReturnValues = []\<rparr>"

text \<open>
  "Add RAOFC": for every key \<open>(PC, BB)\<close> of \<open>RAOFC\<close> and every entry of its map,
  \<^verbatim>\<open>FinalResults.CallSites[PC].Arguments[CSV] = RS\<close>. The map that the source reads
  back as \<^verbatim>\<open>Results.RAOFC[Key]\<close> is the one of the entry being visited.
\<close>

definition addRAOFC ::
  "((MetaAddress \<times> BasicBlock) \<times> RegisterStateMap) list
     \<Rightarrow> (MetaAddress \<times> CallSiteResults) list \<Rightarrow> (MetaAddress \<times> CallSiteResults) list" where
  "addRAOFC RAOFC_map =
     fold (\<lambda>(Key, RSMaps).
             fold (\<lambda>(CSV, RS) CS.
                     let Site = at emptyCallSiteResults CS (fst Key)
                     in assign (fst Key)
                          (Site\<lparr>CallSiteResults.Arguments :=
                                  assign CSV RS (CallSiteResults.Arguments Site)\<rparr>) CS)
                  RSMaps)
          RAOFC_map"

text \<open>
  "Combine URVOFC and DRVOFC": for every key \<open>(PC, BB)\<close> of \<open>URVOFC\<close> and every
  pair of the range over \<open>URVOFC[Key]\<close> and \<open>DRVOFC[Key]\<close>,
  \<^verbatim>\<open>FinalResults.CallSites[PC].ReturnValues[CSV] = combine(LV, RV)\<close>. Here too
  \<^verbatim>\<open>Results.URVOFC[Key]\<close> is the map of the entry being visited, while
  \<^verbatim>\<open>Results.DRVOFC[Key]\<close> is looked up, and is empty when the key is not there.
\<close>

fun combineCallSite ::
  "MetaAddress
     \<Rightarrow> ((GlobalVariable \<times> RegisterState) option \<times> (GlobalVariable \<times> RegisterState) option) list
     \<Rightarrow> (MetaAddress \<times> CallSiteResults) list \<Rightarrow> error + (MetaAddress \<times> CallSiteResults) list" where
  "combineCallSite PC [] CS = Inr CS"
| "combineCallSite PC (Z # rest) CS =
     (case combineEntry Z of
        Inl e \<Rightarrow> Inl e
      | Inr (CSV, v) \<Rightarrow>
          (let Site = at emptyCallSiteResults CS PC
           in combineCallSite PC rest
                (assign PC (Site\<lparr>CallSiteResults.ReturnValues :=
                                  assign CSV v (CallSiteResults.ReturnValues Site)\<rparr>) CS)))"

fun combineCallSites ::
  "((MetaAddress \<times> BasicBlock) \<times> RegisterStateMap) list
     \<Rightarrow> ((MetaAddress \<times> BasicBlock) \<times> RegisterStateMap) list
     \<Rightarrow> (MetaAddress \<times> CallSiteResults) list \<Rightarrow> error + (MetaAddress \<times> CallSiteResults) list" where
  "combineCallSites [] DRVOFC_map CS = Inr CS"
| "combineCallSites ((Key, Lefts) # rest) DRVOFC_map CS =
     (case combineCallSite (fst Key) (zipmap_range Lefts (at [] DRVOFC_map Key)) CS of
        Inl e \<Rightarrow> Inl e
      | Inr CS' \<Rightarrow> combineCallSites rest DRVOFC_map CS')"

text \<open>
  \<open>analyzeOutlinedFunction\<close>. \<^verbatim>\<open>F->getEntryBlock()\<close> is the front of the block list,
  which a function without blocks does not have.
\<close>

definition analyzeOutlinedFunction ::
  "Analyses \<Rightarrow> LLVMFunction \<Rightarrow> Function_ptr \<Rightarrow> error + ABIAnalysesResults" where
  "analyzeOutlinedFunction A F CallSiteHook =
     (case F of
        [] \<Rightarrow> Inl null_dereference
      | EntryBlock # _ \<Rightarrow>
          (let Results0 = \<lparr>UAOF = UsedArgumentsOfFunction A (fst EntryBlock),
                           DRAOF = DeadRegisterArgumentsOfFunction A (fst EntryBlock),
                           URVOFC = [], RAOFC = [], DRVOFC = [], URVOF = []\<rparr>;
               Results = fold (visitInstruction A CallSiteHook) (instructions F) Results0
           in case combineArguments (zipmap_range (UAOF Results) (DRAOF Results)) [] of
                Inl e \<Rightarrow> Inl e
              | Inr Args \<Rightarrow>
                  (case combineCallSites (URVOFC Results) (DRVOFC Results)
                          (addRAOFC (RAOFC Results) []) of
                     Inl e \<Rightarrow> Inl e
                   | Inr Sites \<Rightarrow>
                       Inr \<lparr>Arguments = Args, CallSites = Sites,
                            ReturnValues = URVOF Results\<rparr>)))"

section \<open>Example inputs\<close>

text \<open>
  Concrete inputs on which the theorems below are instantiated: a summary with a given
  type and set of clobbered registers (no call edges, no elected offset, no fake
  function), and a table that holds one summary, for the entry point \<open>7\<close>.
\<close>

definition example_summary :: "FunctionType \<Rightarrow> GlobalVariable set \<Rightarrow> FunctionSummary" where
  "example_summary T C =
     \<lparr>Type = T, ClobberedRegisters = C, Result = {}, ElectedFSO = None, FakeFunction = 0\<rparr>"

definition example_table :: "FunctionSummary \<Rightarrow> FunctionAnalysisResults" where
  "example_table Old =
     \<lparr>FunctionsBucket = [7 \<mapsto> Old], DefaultSummary = example_summary FunctionType.Invalid {}\<rparr>"

text \<open>
  Six analyses with fixed answers, of which only the last depends on the block, and an
  outlined function of two blocks: block \<open>10\<close> returns, block \<open>11\<close> calls the
  call-site hook \<open>99\<close> at address \<open>7\<close> and returns.
\<close>

definition example_analyses :: Analyses where
  "example_analyses =
     \<lparr>UsedArgumentsOfFunction = (\<lambda>BB. [(1, Yes), (2, YesOrDead)]),
      DeadRegisterArgumentsOfFunction = (\<lambda>BB. [(2, Dead), (3, NoOrDead)]),
      UsedReturnValuesOfFunctionCall = (\<lambda>BB. [(1, Yes)]),
      RegisterArgumentsOfFunctionCall = (\<lambda>BB. [(4, Yes)]),
      DeadReturnValuesOfFunctionCall = (\<lambda>BB. [(1, YesOrDead), (5, Dead)]),
      UsedReturnValuesOfFunction = (\<lambda>BB. if BB = 10 then [(1, Yes)] else [(2, Maybe)])\<rparr>"

definition example_function :: LLVMFunction where
  "example_function = [(10, [OtherInst, ReturnInst]), (11, [CallInst 99 7, ReturnInst])]"


section \<open>Properties of the lattice operator\<close>

text \<open>
  C1. \<open>combine\<close> is the table of the specification. Each conjunct below is one row of
  the table: the left operand is fixed and the right operand runs through
  \<open>No, NoOrDead, Dead, Yes, YesOrDead, Maybe, Contradiction\<close>, in that order.
\<close>

theorem combine_table:
  "map (combine Yes) [No, NoOrDead, Dead, Yes, YesOrDead, Maybe, Contradiction] =
     map Inr [Contradiction, Contradiction, Contradiction, Yes, Yes, Yes, Contradiction] \<and>
   map (combine YesOrDead) [No, NoOrDead, Dead, Yes, YesOrDead, Maybe, Contradiction] =
     map Inr [Contradiction, Dead, Dead, Yes, YesOrDead, YesOrDead, Contradiction] \<and>
   map (combine No) [No, NoOrDead, Dead, Yes, YesOrDead, Maybe, Contradiction] =
     map Inr [No, No, Contradiction, Contradiction, Contradiction, No, Contradiction] \<and>
   map (combine NoOrDead) [No, NoOrDead, Dead, Yes, YesOrDead, Maybe, Contradiction] =
     map Inr [No, NoOrDead, Dead, Contradiction, Dead, NoOrDead, Contradiction] \<and>
   map (combine Dead) [No, NoOrDead, Dead, Yes, YesOrDead, Maybe, Contradiction] =
     map Inr [Contradiction, Dead, Dead, Contradiction, Dead, Dead, Contradiction] \<and>
   map (combine Maybe) [No, NoOrDead, Dead, Yes, YesOrDead, Maybe, Contradiction] =
     map Inr [No, NoOrDead, Dead, Yes, YesOrDead, Maybe, Contradiction] \<and>
   map (combine Contradiction) [No, NoOrDead, Dead, Yes, YesOrDead, Maybe, Contradiction] =
     map Inr [Contradiction, Contradiction, Contradiction, Contradiction,
              Contradiction, Contradiction, Contradiction]"
  by simp

text \<open>
  C2. On the seven values other than \<open>Invalid\<close>, \<open>combine\<close> is commutative and
  associative and \<open>Maybe\<close> is an identity on both sides. Associativity is stated with
  the intermediate results named: both inner calls return, and both outer calls return
  the same value \<open>z\<close>.
\<close>

theorem combine_comm_assoc_identity:
  assumes "a \<noteq> RegisterState.Invalid" "b \<noteq> RegisterState.Invalid" "c \<noteq> RegisterState.Invalid"
  shows "combine a b = combine b a
       \<and> (\<exists>x y z. combine b c = Inr x \<and> combine a b = Inr y
                     \<and> combine a x = Inr z \<and> combine y c = Inr z)
       \<and> combine Maybe a = Inr a \<and> combine a Maybe = Inr a"
  using assms by (cases a; cases b; cases c; simp)

text \<open>C2 at \<open>a = YesOrDead\<close>, \<open>b = NoOrDead\<close>, \<open>c = No\<close>.\<close>

theorem combine_comm_assoc_identity_witness:
  "YesOrDead \<noteq> RegisterState.Invalid \<and> NoOrDead \<noteq> RegisterState.Invalid
   \<and> No \<noteq> RegisterState.Invalid
   \<and> combine YesOrDead NoOrDead = combine NoOrDead YesOrDead
   \<and> (\<exists>x y z. combine NoOrDead No = Inr x \<and> combine YesOrDead NoOrDead = Inr y
                 \<and> combine YesOrDead x = Inr z \<and> combine y No = Inr z)
   \<and> combine Maybe YesOrDead = Inr YesOrDead \<and> combine YesOrDead Maybe = Inr YesOrDead"
  using combine_comm_assoc_identity [of YesOrDead NoOrDead No] by simp

text \<open>
  C3. \<open>Contradiction\<close> absorbs every value other than \<open>Invalid\<close>, on either side.
\<close>

theorem combine_Contradiction_absorbing:
  "a \<noteq> RegisterState.Invalid \<Longrightarrow>
     combine Contradiction a = Inr Contradiction \<and> combine a Contradiction = Inr Contradiction"
  by (cases a) simp_all

text \<open>C3 at \<open>a = Dead\<close>.\<close>

theorem combine_Contradiction_absorbing_witness:
  "Dead \<noteq> RegisterState.Invalid
   \<and> combine Contradiction Dead = Inr Contradiction \<and> combine Dead Contradiction = Inr Contradiction"
  using combine_Contradiction_absorbing [of Dead] by simp

text \<open>
  C4. \<open>Invalid\<close> as right operand is not rejected in the rows \<open>Maybe\<close> and
  \<open>Contradiction\<close>: the call returns, in the first case with \<open>Invalid\<close> itself.
\<close>

theorem combine_Invalid_not_rejected:
  "combine Maybe RegisterState.Invalid = Inr RegisterState.Invalid
   \<and> combine Contradiction RegisterState.Invalid = Inr Contradiction"
  by simp

section \<open>Properties of the table of results\<close>

lemma registerFunction_stores:
  "FunctionsBucket (snd (registerFunction S BB F)) = (FunctionsBucket S)(BB \<mapsto> F)"
  "DefaultSummary (snd (registerFunction S BB F)) = DefaultSummary S"
  by (simp_all add: registerFunction_def Let_def split: option.splits)

lemma registerFunction_accepts:
  "FunctionsBucket S BB = Some Old \<Longrightarrow>
     fst (registerFunction S BB New) =
       ((Type New = Type Old \<and> \<not> ClobberedRegisters New \<subseteq> ClobberedRegisters Old)
        \<or> FunctionType_value (Type Old) < FunctionType_value (Type New))"
  by (auto simp: registerFunction_def compare_def Let_def)

text \<open>
  C5, as the code has it. With a summary \<open>Old\<close> stored for the entry point,
  \<open>registerFunction\<close> returns true exactly when the candidate has the same type and
  clobbers a register that \<open>Old\<close> does not, or has a different type whose enumerator
  is greater than that of \<open>Old\<close> (\<open>Invalid < Regular < NoReturn < Fake\<close>).
\<close>

theorem registerFunction_accepted_iff:
  "FunctionsBucket S BB = Some Old \<Longrightarrow>
     fst (registerFunction S BB New) =
       ((Type New = Type Old \<and> \<not> ClobberedRegisters New \<subseteq> ClobberedRegisters Old)
        \<or> (Type New \<noteq> Type Old \<and> FunctionType_value (Type Old) < FunctionType_value (Type New)))"
  by (auto simp: registerFunction_def compare_def Let_def)

text \<open>
  C5 at a stored \<open>Regular\<close> summary clobbering \<open>{1}\<close> and a \<open>Regular\<close> candidate
  clobbering \<open>{1, 2}\<close>: the candidate is accepted.
\<close>

theorem registerFunction_accepted_iff_witness:
  "FunctionsBucket (example_table (example_summary Regular {1})) 7 = Some (example_summary Regular {1})
   \<and> fst (registerFunction (example_table (example_summary Regular {1})) 7
             (example_summary Regular {1, 2}))
     = ((Type (example_summary Regular {1, 2}) = Type (example_summary Regular {1})
          \<and> \<not> ClobberedRegisters (example_summary Regular {1, 2})
                \<subseteq> ClobberedRegisters (example_summary Regular {1}))
        \<or> (Type (example_summary Regular {1, 2}) \<noteq> Type (example_summary Regular {1})
            \<and> FunctionType_value (Type (example_summary Regular {1}))
                < FunctionType_value (Type (example_summary Regular {1, 2}))))
   \<and> fst (registerFunction (example_table (example_summary Regular {1})) 7
             (example_summary Regular {1, 2}))"
proof -
  have h: "FunctionsBucket (example_table (example_summary Regular {1})) 7
             = Some (example_summary Regular {1})"
    by (simp add: example_table_def)
  from registerFunction_accepted_iff [OF h, of "example_summary Regular {1, 2}"] h
  show ?thesis by (simp add: example_summary_def)
qed

text \<open>
  C5 as the specification words it fails twice. A candidate equal to the stored summary
  clobbers a superset of its registers and is not accepted; and a \<open>Regular\<close> candidate
  over a stored \<open>NoReturn\<close> summary differs in type and is not accepted.
\<close>

theorem registerFunction_accepted_counterexample:
  "FunctionsBucket (example_table (example_summary Regular {1})) 7 = Some (example_summary Regular {1})
   \<and> ClobberedRegisters (example_summary Regular {1}) \<supseteq> ClobberedRegisters (example_summary Regular {1})
   \<and> fst (registerFunction (example_table (example_summary Regular {1})) 7
             (example_summary Regular {1})) = False
   \<and> FunctionsBucket (example_table (example_summary NoReturn {1})) 7 = Some (example_summary NoReturn {1})
   \<and> Type (example_summary Regular {}) \<noteq> Type (example_summary NoReturn {1})
   \<and> fst (registerFunction (example_table (example_summary NoReturn {1})) 7
             (example_summary Regular {})) = False"
  by (simp add: registerFunction_def compare_def example_table_def example_summary_def)

text \<open>
  C6, as the code has it. \<open>registerFunction\<close> stores the candidate on every call,
  whatever the comparison with the old summary says: afterwards the entry point maps
  to the candidate, every query on it answers with the candidate's fields, and the
  other entries and the default summary are as before.
\<close>

theorem registerFunction_always_stores:
  "FunctionsBucket (snd (registerFunction S BB F)) = (FunctionsBucket S)(BB \<mapsto> F)
   \<and> DefaultSummary (snd (registerFunction S BB F)) = DefaultSummary S
   \<and> get (snd (registerFunction S BB F)) BB = F
   \<and> getFunctionType (snd (registerFunction S BB F)) BB = Type F
   \<and> getRegistersClobbered (snd (registerFunction S BB F)) BB = ClobberedRegisters F
   \<and> getElectedFSO (snd (registerFunction S BB F)) BB = ElectedFSO F
   \<and> getFakeFunction (snd (registerFunction S BB F)) BB = FakeFunction F"
  by (simp add: registerFunction_stores get_def getFunctionType_def getRegistersClobbered_def
        getElectedFSO_def getFakeFunction_def)

text \<open>
  C6 as the specification words it fails: over a stored \<open>Regular\<close> summary clobbering
  \<open>{1}\<close>, a \<open>Regular\<close> candidate clobbering nothing is subsumed (\<open>compare\<close> holds
  and \<open>registerFunction\<close> returns false), and yet \<open>getRegistersClobbered\<close> answers
  \<open>{}\<close> afterwards where it answered \<open>{1}\<close> before.
\<close>

theorem registerFunction_subsumed_counterexample:
  "FunctionsBucket (example_table (example_summary Regular {1})) 7 = Some (example_summary Regular {1})
   \<and> compare (example_summary Regular {1}) (example_summary Regular {})
   \<and> fst (registerFunction (example_table (example_summary Regular {1})) 7
             (example_summary Regular {})) = False
   \<and> getRegistersClobbered (example_table (example_summary Regular {1})) 7 = {1}
   \<and> getRegistersClobbered
        (snd (registerFunction (example_table (example_summary Regular {1})) 7
                (example_summary Regular {}))) 7 = {}"
  by (simp add: registerFunction_def compare_def example_table_def example_summary_def
        getRegistersClobbered_def get_def)

text \<open>
  A run of candidates for one entry point, each of them accepted: the table ends with
  the last candidate, whose type is not below the type the run started from, and every
  candidate has met the acceptance condition against the one before it.
\<close>

lemma registerFunctions_same_accepted:
  "FunctionsBucket S BB = Some Old \<Longrightarrow>
   registerFunctions S (map (Pair BB) Fs) = (rs, S') \<Longrightarrow>
   \<forall>x\<in>set rs. x \<Longrightarrow>
     FunctionsBucket S' BB = Some (last (Old # Fs))
     \<and> FunctionType_value (Type Old) \<le> FunctionType_value (Type (last (Old # Fs)))
     \<and> (\<forall>(Prev, New)\<in>set (zip (Old # Fs) Fs).
           FunctionType_value (Type Prev) < FunctionType_value (Type New)
           \<or> (Type New = Type Prev \<and> \<not> ClobberedRegisters New \<subseteq> ClobberedRegisters Prev))"
proof (induction Fs arbitrary: S Old rs)
  case Nil
  then show ?case by simp
next
  case (Cons F Fs)
  obtain r S1 where step: "registerFunction S BB F = (r, S1)"
    by (cases "registerFunction S BB F")
  obtain rs1 where rest: "registerFunctions S1 (map (Pair BB) Fs) = (rs1, S')" and rs: "rs = r # rs1"
    using Cons.prems(2) step by (auto split: prod.splits)
  from step registerFunction_stores(1) [of S BB F] have S1: "FunctionsBucket S1 BB = Some F"
    by simp
  from rs Cons.prems(3) have r: "r" and all1: "\<forall>x\<in>set rs1. x" by auto
  from r step registerFunction_accepts [OF Cons.prems(1), of F]
  have head: "FunctionType_value (Type Old) < FunctionType_value (Type F)
              \<or> (Type F = Type Old \<and> \<not> ClobberedRegisters F \<subseteq> ClobberedRegisters Old)"
    by auto
  then have le: "FunctionType_value (Type Old) \<le> FunctionType_value (Type F)" by auto
  from Cons.IH [OF S1 rest all1] le head show ?case by auto
qed

text \<open>
  Any run of candidates for one entry point, accepted or not: the table ends with the
  last candidate, and each call answers by comparing its candidate with the candidate
  of the call before it, which is what the table holds by then.
\<close>

lemma not_compare_iff:
  "(\<not> compare Old New) =
     (FunctionType_value (Type Old) < FunctionType_value (Type New)
      \<or> (Type New = Type Old \<and> \<not> ClobberedRegisters New \<subseteq> ClobberedRegisters Old))"
  by (auto simp: compare_def)

lemma registerFunctions_same_run:
  "FunctionsBucket S BB = Some Old \<Longrightarrow>
   registerFunctions S (map (Pair BB) Fs) = (rs, S') \<Longrightarrow>
     FunctionsBucket S' BB = Some (last (Old # Fs))
     \<and> rs = map (\<lambda>(Prev, New). \<not> compare Prev New) (zip (Old # Fs) Fs)"
proof (induction Fs arbitrary: S Old rs)
  case Nil
  then show ?case by simp
next
  case (Cons F Fs)
  obtain r S1 where step: "registerFunction S BB F = (r, S1)"
    by (cases "registerFunction S BB F")
  obtain rs1 where rest: "registerFunctions S1 (map (Pair BB) Fs) = (rs1, S')" and rs: "rs = r # rs1"
    using Cons.prems(2) step by (auto split: prod.splits)
  from step registerFunction_stores(1) [of S BB F] have S1: "FunctionsBucket S1 BB = Some F"
    by simp
  from step Cons.prems(1) have r: "r = (\<not> compare Old F)"
    by (simp add: registerFunction_def Let_def)
  from Cons.IH [OF S1 rest] rs r show ?case by simp
qed

text \<open>
  C7, as the code has it. Take any run of calls of \<open>registerFunction\<close> for one entry
  point that has a summary \<open>Old\<close> stored, with the candidates \<open>Fs\<close> and the answers
  \<open>rs\<close>; the summary stored when call \<open>i\<close> is made is \<open>(Old # Fs) ! i\<close>, the
  candidate of the call before, accepted or not. Call \<open>i\<close> accepts exactly when its
  candidate has a greater type than that summary
  (\<open>Invalid < Regular < NoReturn < Fake\<close>), or the same type and a clobbered register
  that the summary does not have; so no accepted call puts \<open>Regular\<close> where
  \<open>NoReturn\<close> was stored. When every call of the run accepts, the stored type at the
  end is not below the type at the start, and is not \<open>Regular\<close> after \<open>NoReturn\<close>.
\<close>

theorem accepted_summaries_monotone:
  assumes "FunctionsBucket S BB = Some Old"
      and "registerFunctions S (map (Pair BB) Fs) = (rs, S')"
  shows "get S' BB = last (Old # Fs)
       \<and> length rs = length Fs
       \<and> (\<forall>i<length Fs.
             rs ! i =
               (FunctionType_value (Type ((Old # Fs) ! i)) < FunctionType_value (Type (Fs ! i))
                \<or> (Type (Fs ! i) = Type ((Old # Fs) ! i)
                    \<and> \<not> ClobberedRegisters (Fs ! i) \<subseteq> ClobberedRegisters ((Old # Fs) ! i))))
       \<and> (\<forall>i<length Fs.
             rs ! i \<longrightarrow> \<not> (Type ((Old # Fs) ! i) = NoReturn \<and> Type (Fs ! i) = Regular))
       \<and> ((\<forall>x\<in>set rs. x) \<longrightarrow>
             FunctionType_value (Type Old) \<le> FunctionType_value (getFunctionType S' BB)
             \<and> \<not> (Type Old = NoReturn \<and> getFunctionType S' BB = Regular))"
proof -
  note run = registerFunctions_same_run [OF assms]
  from run have g: "get S' BB = last (Old # Fs)" by (simp add: get_def)
  from run have len: "length rs = length Fs" by simp
  have nth: "rs ! i =
               (FunctionType_value (Type ((Old # Fs) ! i)) < FunctionType_value (Type (Fs ! i))
                \<or> (Type (Fs ! i) = Type ((Old # Fs) ! i)
                    \<and> \<not> ClobberedRegisters (Fs ! i) \<subseteq> ClobberedRegisters ((Old # Fs) ! i)))"
    if "i < length Fs" for i
    using that run by (simp add: not_compare_iff)
  have rev: "\<not> (Type ((Old # Fs) ! i) = NoReturn \<and> Type (Fs ! i) = Regular)"
    if "i < length Fs" "rs ! i" for i
    using nth [OF that(1)] that(2) by auto
  have all: "FunctionType_value (Type Old) \<le> FunctionType_value (getFunctionType S' BB)
             \<and> \<not> (Type Old = NoReturn \<and> getFunctionType S' BB = Regular)"
    if "\<forall>x\<in>set rs. x"
  proof -
    from registerFunctions_same_accepted [OF assms that] g
    have "FunctionType_value (Type Old) \<le> FunctionType_value (getFunctionType S' BB)"
      by (simp add: getFunctionType_def)
    then show ?thesis by auto
  qed
  from g len nth rev all show ?thesis by blast
qed

text \<open>
  C7 on two runs over a stored \<open>Regular\<close> summary clobbering \<open>{1}\<close>. In the first,
  \<open>NoReturn\<close> is accepted for its greater type, \<open>Regular\<close> clobbering \<open>{1}\<close> is
  rejected for its smaller type, and \<open>Regular\<close> clobbering \<open>{1, 2}\<close> is accepted
  for the new register \<open>2\<close>. In the second, both candidates are accepted and the type
  ends at \<open>NoReturn\<close>.
\<close>

theorem accepted_summaries_monotone_witness:
  "FunctionsBucket (example_table (example_summary Regular {1})) 7 = Some (example_summary Regular {1})
   \<and> registerFunctions (example_table (example_summary Regular {1}))
        (map (Pair 7) [example_summary NoReturn {}, example_summary Regular {1},
                       example_summary Regular {1, 2}])
       = ([True, False, True], example_table (example_summary Regular {1, 2}))
   \<and> get (example_table (example_summary Regular {1, 2})) 7 = example_summary Regular {1, 2}
   \<and> FunctionType_value (Type (example_summary Regular {1}))
        < FunctionType_value (Type (example_summary NoReturn {}))
   \<and> \<not> FunctionType_value (Type (example_summary NoReturn {}))
          < FunctionType_value (Type (example_summary Regular {1}))
   \<and> Type (example_summary Regular {1}) \<noteq> Type (example_summary NoReturn {})
   \<and> Type (example_summary Regular {1, 2}) = Type (example_summary Regular {1})
   \<and> \<not> ClobberedRegisters (example_summary Regular {1, 2})
          \<subseteq> ClobberedRegisters (example_summary Regular {1})
   \<and> registerFunctions (example_table (example_summary Regular {1}))
        (map (Pair 7) [example_summary Regular {1, 2}, example_summary NoReturn {}])
       = ([True, True], example_table (example_summary NoReturn {}))
   \<and> FunctionType_value (Type (example_summary Regular {1}))
        \<le> FunctionType_value (getFunctionType (example_table (example_summary NoReturn {})) 7)
   \<and> \<not> (Type (example_summary Regular {1}) = NoReturn
          \<and> getFunctionType (example_table (example_summary NoReturn {})) 7 = Regular)"
proof -
  have h1: "FunctionsBucket (example_table (example_summary Regular {1})) 7
              = Some (example_summary Regular {1})"
    by (simp add: example_table_def)
  have h2: "registerFunctions (example_table (example_summary Regular {1}))
              (map (Pair 7) [example_summary NoReturn {}, example_summary Regular {1},
                             example_summary Regular {1, 2}])
            = ([True, False, True], example_table (example_summary Regular {1, 2}))"
    by (simp add: registerFunction_def compare_def example_table_def example_summary_def)
  have h3: "registerFunctions (example_table (example_summary Regular {1}))
              (map (Pair 7) [example_summary Regular {1, 2}, example_summary NoReturn {}])
            = ([True, True], example_table (example_summary NoReturn {}))"
    by (simp add: registerFunction_def compare_def example_table_def example_summary_def)
  from accepted_summaries_monotone [OF h1 h2]
  have a: "get (example_table (example_summary Regular {1, 2})) 7 = example_summary Regular {1, 2}"
    by simp
  from accepted_summaries_monotone [OF h1 h3]
  have b: "FunctionType_value (Type (example_summary Regular {1}))
             \<le> FunctionType_value (getFunctionType (example_table (example_summary NoReturn {})) 7)
           \<and> \<not> (Type (example_summary Regular {1}) = NoReturn
                  \<and> getFunctionType (example_table (example_summary NoReturn {})) 7 = Regular)"
    by simp
  from h1 h2 h3 a b show ?thesis by (simp add: example_summary_def)
qed

text \<open>
  C7 as the specification words it fails twice. Over a stored \<open>Regular\<close> summary
  clobbering \<open>{1}\<close>, a \<open>Regular\<close> candidate clobbering \<open>{2}\<close> is accepted: the stored
  set goes from \<open>{1}\<close> to \<open>{2}\<close>, which does not contain it, and the type stays
  \<open>Regular\<close>. And in the run \<open>NoReturn\<close>, \<open>Regular\<close> clobbering \<open>{1}\<close>, \<open>Regular\<close>
  clobbering \<open>{1, 2}\<close> the answers are true, false, true: the two accepted summaries
  that follow each other are \<open>NoReturn\<close> and then \<open>Regular\<close>, and \<open>Regular\<close> is what
  the table holds at the end.
\<close>

theorem accepted_summaries_counterexample:
  "FunctionsBucket (example_table (example_summary Regular {1})) 7 = Some (example_summary Regular {1})
   \<and> fst (registerFunction (example_table (example_summary Regular {1})) 7
             (example_summary Regular {2})) = True
   \<and> getRegistersClobbered (example_table (example_summary Regular {1})) 7 = {1}
   \<and> getRegistersClobbered
        (snd (registerFunction (example_table (example_summary Regular {1})) 7
                (example_summary Regular {2}))) 7 = {2}
   \<and> \<not> ({1} \<subseteq> ({2} :: GlobalVariable set))
   \<and> getFunctionType (example_table (example_summary Regular {1})) 7 = Regular
   \<and> getFunctionType
        (snd (registerFunction (example_table (example_summary Regular {1})) 7
                (example_summary Regular {2}))) 7 = Regular
   \<and> registerFunctions (example_table (example_summary Regular {1}))
        (map (Pair 7) [example_summary NoReturn {}, example_summary Regular {1},
                       example_summary Regular {1, 2}])
       = ([True, False, True], example_table (example_summary Regular {1, 2}))
   \<and> Type (example_summary NoReturn {}) = NoReturn
   \<and> Type (example_summary Regular {1, 2}) = Regular
   \<and> getFunctionType (example_table (example_summary Regular {1, 2})) 7 = Regular"
  by (simp add: registerFunction_def compare_def example_table_def example_summary_def
        getRegistersClobbered_def getFunctionType_def get_def)

text \<open>Registrations for other entry points leave an entry point and the default alone.\<close>

lemma registerFunctions_frame:
  "BB \<notin> fst ` set regs \<Longrightarrow>
     FunctionsBucket (snd (registerFunctions S regs)) BB = FunctionsBucket S BB
     \<and> DefaultSummary (snd (registerFunctions S regs)) = DefaultSummary S"
proof (induction regs arbitrary: S)
  case Nil
  then show ?case by simp
next
  case (Cons reg regs)
  obtain BB' F where reg: "reg = (BB', F)" by (cases reg)
  obtain r S1 where step: "registerFunction S BB' F = (r, S1)"
    by (cases "registerFunction S BB' F")
  from Cons.prems reg have ne: "BB \<noteq> BB'" and rest: "BB \<notin> fst ` set regs" by auto
  from step registerFunction_stores [of S BB' F] ne
  have "FunctionsBucket S1 BB = FunctionsBucket S BB" "DefaultSummary S1 = DefaultSummary S"
    by simp_all
  with Cons.IH [OF rest, of S1] reg step show ?case
    by (cases "registerFunctions S1 regs") simp
qed

text \<open>
  C9. In a table built by the constructor from a default summary \<open>D\<close> and filled by
  any registrations, every query on an entry point that none of the registrations names
  answers with the corresponding field of \<open>D\<close> (\<open>isFakeFunction\<close> with whether the
  type of \<open>D\<close> is \<open>Fake\<close>). The queries are total functions: none has a failing branch.
\<close>

theorem absent_entry_answers_default:
  assumes "BB \<notin> fst ` set regs"
  shows "getFunctionType (snd (registerFunctions (new_FunctionAnalysisResults D) regs)) BB = Type D
       \<and> getRegistersClobbered (snd (registerFunctions (new_FunctionAnalysisResults D) regs)) BB
           = ClobberedRegisters D
       \<and> getElectedFSO (snd (registerFunctions (new_FunctionAnalysisResults D) regs)) BB = ElectedFSO D
       \<and> getFakeFunction (snd (registerFunctions (new_FunctionAnalysisResults D) regs)) BB
           = FakeFunction D
       \<and> isFakeFunction (snd (registerFunctions (new_FunctionAnalysisResults D) regs)) BB
           = (Type D = Fake)"
proof -
  from registerFunctions_frame [OF assms, of "new_FunctionAnalysisResults D"]
  have "get (snd (registerFunctions (new_FunctionAnalysisResults D) regs)) BB = D"
    by (simp add: get_def new_FunctionAnalysisResults_def)
  then show ?thesis
    by (simp add: getFunctionType_def getRegistersClobbered_def getElectedFSO_def
          getFakeFunction_def isFakeFunction_def)
qed

text \<open>
  C9 on a table with a \<open>Fake\<close> default clobbering \<open>{3}\<close> and one registration, for
  the entry point \<open>7\<close>: the queries on entry point \<open>8\<close> answer with the default, the
  type of entry point \<open>7\<close> is the registered one.
\<close>

theorem absent_entry_answers_default_witness:
  "(8::nat) \<notin> fst ` set [(7, example_summary Regular {1})]
   \<and> getFunctionType (snd (registerFunctions (new_FunctionAnalysisResults (example_summary Fake {3}))
                             [(7, example_summary Regular {1})])) 8 = Fake
   \<and> getRegistersClobbered (snd (registerFunctions (new_FunctionAnalysisResults (example_summary Fake {3}))
                             [(7, example_summary Regular {1})])) 8 = {3}
   \<and> getElectedFSO (snd (registerFunctions (new_FunctionAnalysisResults (example_summary Fake {3}))
                             [(7, example_summary Regular {1})])) 8 = None
   \<and> getFakeFunction (snd (registerFunctions (new_FunctionAnalysisResults (example_summary Fake {3}))
                             [(7, example_summary Regular {1})])) 8 = 0
   \<and> isFakeFunction (snd (registerFunctions (new_FunctionAnalysisResults (example_summary Fake {3}))
                             [(7, example_summary Regular {1})])) 8
   \<and> getFunctionType (snd (registerFunctions (new_FunctionAnalysisResults (example_summary Fake {3}))
                             [(7, example_summary Regular {1})])) 7 = Regular"
proof -
  have h: "(8::nat) \<notin> fst ` set [(7, example_summary Regular {1})]" by simp
  from absent_entry_answers_default [OF h, of "example_summary Fake {3}"] h
  show ?thesis
    by (simp add: example_summary_def registerFunction_def new_FunctionAnalysisResults_def
          getFunctionType_def get_def)
qed

section \<open>Properties of the analysis of an outlined function\<close>

subsection \<open>The containers\<close>


lemma at_Cons: "at d ((k', v') # m) k = (if k = k' then v' else at d m k)"
  by (simp add: at_def)


subsection \<open>Combining two maps entry by entry\<close>






subsection \<open>The loop over the instructions\<close>

lemma visitInstruction_UAOF_DRAOF:
  "UAOF (visitInstruction A H BI R) = UAOF R \<and> DRAOF (visitInstruction A H BI R) = DRAOF R"
  by (cases "(A, H, BI, R)" rule: visitInstruction.cases) simp_all

lemma fold_visitInstruction_UAOF_DRAOF:
  "UAOF (fold (visitInstruction A H) BIs R) = UAOF R
   \<and> DRAOF (fold (visitInstruction A H) BIs R) = DRAOF R"
  by (induction BIs arbitrary: R) (simp_all add: visitInstruction_UAOF_DRAOF)

lemma visitInstruction_URVOF:
  "URVOF (visitInstruction A H BI R) =
     (if snd BI = ReturnInst then UsedReturnValuesOfFunction A (fst BI) else URVOF R)"
  by (cases "(A, H, BI, R)" rule: visitInstruction.cases) simp_all

lemma fold_visitInstruction_URVOF:
  "URVOF (fold (visitInstruction A H) BIs R) =
     (case filter (\<lambda>BI. snd BI = ReturnInst) BIs of
        [] \<Rightarrow> URVOF R
      | Ret # Rets \<Rightarrow> UsedReturnValuesOfFunction A (fst (last (Ret # Rets))))"
proof (induction BIs arbitrary: R)
  case Nil
  then show ?case by simp
next
  case (Cons BI BIs)
  from Cons.IH [of "visitInstruction A H BI R"] show ?case
    by (simp add: visitInstruction_URVOF split: list.splits)
qed

lemma analyzeOutlinedFunction_InrD:
  assumes "analyzeOutlinedFunction A ((Entry, Is) # Blocks) H = Inr FinalResults"
  shows "combineArguments (zipmap_range (UsedArgumentsOfFunction A Entry)
                                         (DeadRegisterArgumentsOfFunction A Entry)) []
           = Inr (Arguments FinalResults)
         \<and> ReturnValues FinalResults =
           (case filter (\<lambda>BI. snd BI = ReturnInst) (instructions ((Entry, Is) # Blocks)) of
              [] \<Rightarrow> []
            | Ret # Rets \<Rightarrow> UsedReturnValuesOfFunction A (fst (last (Ret # Rets))))"
  using assms
  by (auto simp: analyzeOutlinedFunction_def Let_def fold_visitInstruction_UAOF_DRAOF
        fold_visitInstruction_URVOF split: sum.splits list.splits)


subsection \<open>When the analysis returns\<close>

text \<open>
  \<open>combine\<close> returns on operands other than \<open>Invalid\<close>; so the whole analysis
  returns when none of the four analyses whose results are combined yields \<open>Invalid\<close>.
\<close>

lemma combine_returns:
  "a \<noteq> RegisterState.Invalid \<Longrightarrow> b \<noteq> RegisterState.Invalid \<Longrightarrow> \<exists>v. combine a b = Inr v"
  by (cases a; cases b) simp_all

lemma combineEntry_returns:
  assumes "Z \<noteq> (None, None)"
    and "\<And>L. fst Z = Some L \<Longrightarrow> snd L \<noteq> RegisterState.Invalid"
    and "\<And>R. snd Z = Some R \<Longrightarrow> snd R \<noteq> RegisterState.Invalid"
  shows "\<exists>c v. combineEntry Z = Inr (c, v)"
proof (cases Z)
  case (Pair Left' Right')
  have "\<exists>v. combine (case Left' of None \<Rightarrow> Maybe | Some L \<Rightarrow> snd L)
                     (case Right' of None \<Rightarrow> Maybe | Some R \<Rightarrow> snd R) = Inr v"
    using assms(2,3) Pair by (intro combine_returns) (auto split: option.splits)
  with assms(1) Pair show ?thesis
    by (auto simp: combineEntry_def Let_def split: option.splits)
qed

lemma zipmap_range_entries_return:
  "RegisterState.Invalid \<notin> snd ` set ls \<Longrightarrow> RegisterState.Invalid \<notin> snd ` set rs \<Longrightarrow>
     \<forall>Z\<in>set (zipmap_range ls rs). \<exists>c v. combineEntry Z = Inr (c, v)"
proof (induction ls rs rule: zipmap_range.induct)
  case 1
  then show ?case by simp
next
  case (2 l ls)
  have "\<exists>c v. combineEntry (Some l, None) = Inr (c, v)"
    using "2.prems" by (intro combineEntry_returns) auto
  with 2 show ?case by simp
next
  case (3 r rs)
  have "\<exists>c v. combineEntry (None, Some r) = Inr (c, v)"
    using "3.prems" by (intro combineEntry_returns) auto
  with 3 show ?case by simp
next
  case (4 l ls r rs)
  have "\<exists>c v. combineEntry (Some l, None) = Inr (c, v)"
       "\<exists>c v. combineEntry (None, Some r) = Inr (c, v)"
       "\<exists>c v. combineEntry (Some l, Some r) = Inr (c, v)"
    using "4.prems" by (intro combineEntry_returns; auto)+
  with 4 show ?case by simp
qed

lemma combineArguments_returns:
  "\<forall>Z\<in>set zs. \<exists>c v. combineEntry Z = Inr (c, v) \<Longrightarrow> \<exists>M'. combineArguments zs M = Inr M'"
  by (induction zs arbitrary: M) auto

lemma combineCallSite_returns:
  "\<forall>Z\<in>set zs. \<exists>c v. combineEntry Z = Inr (c, v) \<Longrightarrow> \<exists>CS'. combineCallSite PC zs CS = Inr CS'"
  by (induction zs arbitrary: CS) (auto simp: Let_def)

lemma at_in_set: "at [] m k = [] \<or> (k, at [] m k) \<in> set m"
  by (auto simp: at_def split: option.splits dest: map_of_SomeD)

lemma combineCallSites_returns:
  assumes "\<forall>(K, m)\<in>set D. RegisterState.Invalid \<notin> snd ` set m"
  shows "\<forall>(K, m)\<in>set U. RegisterState.Invalid \<notin> snd ` set m \<Longrightarrow>
           \<exists>CS'. combineCallSites U D CS = Inr CS'"
proof (induction U arbitrary: CS)
  case Nil
  then show ?case by simp
next
  case (Cons KL U)
  obtain Key Lefts where KL: "KL = (Key, Lefts)" by (cases KL)
  from Cons.prems KL have l: "RegisterState.Invalid \<notin> snd ` set Lefts" by simp
  from at_in_set [of D Key] assms have r: "RegisterState.Invalid \<notin> snd ` set (at [] D Key)"
    by auto
  from combineCallSite_returns [OF zipmap_range_entries_return [OF l r], of "fst Key" CS]
  obtain CS1 where "combineCallSite (fst Key) (zipmap_range Lefts (at [] D Key)) CS = Inr CS1" ..
  moreover from Cons.IH [of CS1] Cons.prems obtain CS' where "combineCallSites U D CS1 = Inr CS'"
    by auto
  ultimately show ?case by (simp add: KL)
qed

lemma set_assign: "set (assign k v m) \<subseteq> insert (k, v) (set m)"
  by (induction m) (auto split: if_splits)

lemma Invalid_free_assign:
  "\<forall>(K, x)\<in>set m. RegisterState.Invalid \<notin> snd ` set x \<Longrightarrow>
   RegisterState.Invalid \<notin> snd ` set v \<Longrightarrow>
     \<forall>(K, x)\<in>set (assign k v m). RegisterState.Invalid \<notin> snd ` set x"
  using set_assign [of k v m] by blast

lemma fold_visitInstruction_clean:
  assumes "\<forall>BB. RegisterState.Invalid \<notin> snd ` set (UsedReturnValuesOfFunctionCall A BB)"
      and "\<forall>BB. RegisterState.Invalid \<notin> snd ` set (DeadReturnValuesOfFunctionCall A BB)"
  shows "(\<forall>(K, m)\<in>set (URVOFC R). RegisterState.Invalid \<notin> snd ` set m) \<Longrightarrow>
         (\<forall>(K, m)\<in>set (DRVOFC R). RegisterState.Invalid \<notin> snd ` set m) \<Longrightarrow>
         (\<forall>(K, m)\<in>set (URVOFC (fold (visitInstruction A H) BIs R)).
             RegisterState.Invalid \<notin> snd ` set m)
         \<and> (\<forall>(K, m)\<in>set (DRVOFC (fold (visitInstruction A H) BIs R)).
             RegisterState.Invalid \<notin> snd ` set m)"
proof (induction BIs arbitrary: R)
  case Nil
  then show ?case by simp
next
  case (Cons BI BIs)
  have "(\<forall>(K, m)\<in>set (URVOFC (visitInstruction A H BI R)). RegisterState.Invalid \<notin> snd ` set m)
      \<and> (\<forall>(K, m)\<in>set (DRVOFC (visitInstruction A H BI R)). RegisterState.Invalid \<notin> snd ` set m)"
  proof (cases "(A, H, BI, R)" rule: visitInstruction.cases)
    case (1 A' H' BB Callee PC R')
    with Cons.prems assms show ?thesis
      by (simp, intro impI conjI Invalid_free_assign; simp)
  next
    case (2 A' H' BB R')
    with Cons.prems show ?thesis by simp
  next
    case (3 A' H' BB R')
    with Cons.prems show ?thesis by simp
  qed
  with Cons.IH [of "visitInstruction A H BI R"] show ?case by simp
qed

lemma analyzeOutlinedFunction_returns:
  assumes "\<forall>BB. RegisterState.Invalid \<notin> snd ` set (UsedArgumentsOfFunction A BB)"
      and "\<forall>BB. RegisterState.Invalid \<notin> snd ` set (DeadRegisterArgumentsOfFunction A BB)"
      and "\<forall>BB. RegisterState.Invalid \<notin> snd ` set (UsedReturnValuesOfFunctionCall A BB)"
      and "\<forall>BB. RegisterState.Invalid \<notin> snd ` set (DeadReturnValuesOfFunctionCall A BB)"
  shows "\<exists>FinalResults. analyzeOutlinedFunction A ((Entry, Is) # Blocks) H = Inr FinalResults"
proof -
  define Results where "Results =
    fold (visitInstruction A H) (instructions ((Entry, Is) # Blocks))
      \<lparr>UAOF = UsedArgumentsOfFunction A Entry, DRAOF = DeadRegisterArgumentsOfFunction A Entry,
       URVOFC = [], RAOFC = [], DRVOFC = [], URVOF = []\<rparr>"
  have U: "UAOF Results = UsedArgumentsOfFunction A Entry"
    and D: "DRAOF Results = DeadRegisterArgumentsOfFunction A Entry"
    by (simp_all add: Results_def fold_visitInstruction_UAOF_DRAOF)
  from assms(1,2) have "\<exists>Args. combineArguments (zipmap_range (UAOF Results) (DRAOF Results)) [] = Inr Args"
    unfolding U D by (intro combineArguments_returns zipmap_range_entries_return) auto
  then obtain Args where a: "combineArguments (zipmap_range (UAOF Results) (DRAOF Results)) [] = Inr Args" ..
  have "(\<forall>(K, m)\<in>set (URVOFC Results). RegisterState.Invalid \<notin> snd ` set m)
      \<and> (\<forall>(K, m)\<in>set (DRVOFC Results). RegisterState.Invalid \<notin> snd ` set m)"
    unfolding Results_def by (rule fold_visitInstruction_clean [OF assms(3,4)]) simp_all
  then have "\<exists>Sites. combineCallSites (URVOFC Results) (DRVOFC Results) (addRAOFC (RAOFC Results) []) = Inr Sites"
    by (intro combineCallSites_returns) auto
  then obtain Sites where s: "combineCallSites (URVOFC Results) (DRVOFC Results) (addRAOFC (RAOFC Results) []) = Inr Sites" ..
  have "analyzeOutlinedFunction A ((Entry, Is) # Blocks) H =
          Inr \<lparr>Arguments = Args, CallSites = Sites, ReturnValues = URVOF Results\<rparr>"
    using a s unfolding Results_def by (simp add: analyzeOutlinedFunction_def Let_def)
  then show ?thesis ..
qed


subsection \<open>The result on the example\<close>

lemma example_result:
  "analyzeOutlinedFunction example_analyses example_function 99 =
     Inr \<lparr>Arguments = [(1, Yes), (2, Dead), (3, NoOrDead)],
          CallSites = [(7, \<lparr>CallSiteResults.Arguments = [(4, Yes)],
                            CallSiteResults.ReturnValues = [(1, Yes), (5, Dead)]\<rparr>)],
          ReturnValues = [(2, Maybe)]\<rparr>"
  by (simp add: analyzeOutlinedFunction_def example_analyses_def example_function_def
        instructions_def combineEntry_def addRAOFC_def at_def emptyCallSiteResults_def)

subsection \<open>The claims\<close>




text \<open>
  C10. When the function has a return instruction and \<open>analyzeOutlinedFunction\<close>
  returns, the \<open>ReturnValues\<close> of its result are the \<open>UsedReturnValuesOfFunction\<close>
  map of the block of the last return instruction in iteration order, whatever that
  analysis gave for the blocks of the earlier ones. It does return when none of the maps
  that are combined contains \<open>Invalid\<close>.
\<close>

theorem analyzeOutlinedFunction_ReturnValues:
  assumes "filter (\<lambda>BI. snd BI = ReturnInst) (instructions F) = Rets"
      and "Rets \<noteq> []"
  shows "((\<forall>BB. RegisterState.Invalid \<notin> snd ` set (UsedArgumentsOfFunction A BB)
                \<and> RegisterState.Invalid \<notin> snd ` set (DeadRegisterArgumentsOfFunction A BB)
                \<and> RegisterState.Invalid \<notin> snd ` set (UsedReturnValuesOfFunctionCall A BB)
                \<and> RegisterState.Invalid \<notin> snd ` set (DeadReturnValuesOfFunctionCall A BB))
           \<longrightarrow> (\<exists>Returned. analyzeOutlinedFunction A F CallSiteHook = Inr Returned))
       \<and> (analyzeOutlinedFunction A F CallSiteHook = Inr FinalResults \<longrightarrow>
            ReturnValues FinalResults = UsedReturnValuesOfFunction A (fst (last Rets)))"
proof -
  from assms have "F \<noteq> []" by (auto simp: instructions_def)
  then obtain Entry Is Blocks where F: "F = (Entry, Is) # Blocks"
    by (cases F) auto
  show ?thesis
  proof (intro conjI impI)
    assume "\<forall>BB. RegisterState.Invalid \<notin> snd ` set (UsedArgumentsOfFunction A BB)
                \<and> RegisterState.Invalid \<notin> snd ` set (DeadRegisterArgumentsOfFunction A BB)
                \<and> RegisterState.Invalid \<notin> snd ` set (UsedReturnValuesOfFunctionCall A BB)
                \<and> RegisterState.Invalid \<notin> snd ` set (DeadReturnValuesOfFunctionCall A BB)"
    then show "\<exists>Returned. analyzeOutlinedFunction A F CallSiteHook = Inr Returned"
      unfolding F by (intro analyzeOutlinedFunction_returns) simp_all
  next
    assume "analyzeOutlinedFunction A F CallSiteHook = Inr FinalResults"
    from analyzeOutlinedFunction_InrD [OF this [unfolded F]] assms
    show "ReturnValues FinalResults = UsedReturnValuesOfFunction A (fst (last Rets))"
      by (auto simp: F split: list.splits)
  qed
qed

text \<open>
  C10 on the example, which returns in block \<open>10\<close> and then in block \<open>11\<close>: the
  result carries the map of block \<open>11\<close>, and nothing of the map of block \<open>10\<close>.
\<close>

theorem analyzeOutlinedFunction_ReturnValues_witness:
  "filter (\<lambda>BI. snd BI = ReturnInst) (instructions example_function)
     = [(10, ReturnInst), (11, ReturnInst)]
   \<and> [(10, ReturnInst), (11, ReturnInst)] \<noteq> ([] :: (BasicBlock \<times> Instruction) list)
   \<and> analyzeOutlinedFunction example_analyses example_function 99 =
       Inr \<lparr>Arguments = [(1, Yes), (2, Dead), (3, NoOrDead)],
            CallSites = [(7, \<lparr>CallSiteResults.Arguments = [(4, Yes)],
                              CallSiteResults.ReturnValues = [(1, Yes), (5, Dead)]\<rparr>)],
            ReturnValues = [(2, Maybe)]\<rparr>
   \<and> UsedReturnValuesOfFunction example_analyses 10 = [(1, Yes)]
   \<and> UsedReturnValuesOfFunction example_analyses 11 = [(2, Maybe)]"
proof -
  have f: "filter (\<lambda>BI. snd BI = ReturnInst) (instructions example_function)
             = [(10, ReturnInst), (11, ReturnInst)]"
    by (simp add: instructions_def example_function_def)
  have n: "[(10, ReturnInst), (11, ReturnInst)] \<noteq> ([] :: (BasicBlock \<times> Instruction) list)"
    by simp
  have "\<exists>R. analyzeOutlinedFunction example_analyses example_function 99 = Inr R"
    using analyzeOutlinedFunction_ReturnValues [OF f n, THEN conjunct1, of example_analyses 99]
    by (simp add: example_analyses_def)
  then obtain R where r: "analyzeOutlinedFunction example_analyses example_function 99 = Inr R" ..
  from analyzeOutlinedFunction_ReturnValues [OF f n, THEN conjunct2, rule_format, OF r]
  have "ReturnValues R = [(2, Maybe)]" by (simp add: example_analyses_def)
  with r example_result f show ?thesis by (simp add: example_analyses_def)
qed

end
